theory Spec2Isabelle
  imports Main "HOL-Library.Word"
begin

section \<open>Python values\<close>

text \<open>
  The option tables of \<^verbatim>\<open>simple_capture\<close> hold \<^verbatim>\<open>None\<close>, booleans, integers, strings
  and floats.  A float is kept as the 64 bits of the C double behind it; how Python prints
  a float is not part of this repository, so the printing function is a parameter
  (\<open>fs\<close>) of everything that calls \<^verbatim>\<open>str\<close>.
\<close>

datatype pyval = PNone | PBool bool | PInt int | PStr string | PFloat "64 word"

text \<open>A \<^verbatim>\<open>dict\<close> keeps insertion order, so it is a list of (key, value) pairs.\<close>

type_synonym pydict = "(string \<times> pyval) list"

datatype error = KeyError string | TypeError string | ValueError string

definition keys :: "(string \<times> 'v) list \<Rightarrow> string list" where
  "keys d = map fst d"

text \<open>\<^verbatim>\<open>str(n)\<close> for an integer: decimal digits, a minus sign in front when negative.\<close>

definition digit_char :: "nat \<Rightarrow> char" where
  "digit_char n = ''0123456789'' ! n"

function str_nat :: "nat \<Rightarrow> string" where
  "str_nat n = (if n < 10 then [digit_char n] else str_nat (n div 10) @ [digit_char (n mod 10)])"
  by pat_completeness auto
termination
  by (relation "measure (\<lambda>n. n)") auto

definition str_int :: "int \<Rightarrow> string" where
  "str_int i = (if i < 0 then CHR ''-'' # str_nat (nat (- i)) else str_nat (nat i))"

fun py_str :: "(64 word \<Rightarrow> string) \<Rightarrow> pyval \<Rightarrow> string" where
  "py_str fs PNone = ''None''"
| "py_str fs (PBool b) = (if b then ''True'' else ''False'')"
| "py_str fs (PInt i) = str_int i"
| "py_str fs (PStr s) = s"
| "py_str fs (PFloat x) = fs x"

text \<open>\<^verbatim>\<open>isinstance(val, bool)\<close>\<close>

fun isinstance_bool :: "pyval \<Rightarrow> bool" where
  "isinstance_bool (PBool b) = True"
| "isinstance_bool v = False"

text \<open>The truth value of a value already known to be a \<^verbatim>\<open>bool\<close>.\<close>

fun truthy :: "pyval \<Rightarrow> bool" where
  "truthy (PBool b) = b"
| "truthy v = False"

section \<open>Keyword arguments\<close>

text \<open>
  Both constructors are reached through \<^verbatim>\<open>**kwargs\<close>.  A call binds every keyword to the
  parameter of that name; a keyword that is no parameter, or a parameter without default
  that gets no keyword, raises \<^verbatim>\<open>TypeError\<close>.  The bound arguments are an environment
  from parameter names to values.  \<open>params\<close> lists each parameter with its default,
  \<open>None\<close> for a parameter that has none.
\<close>

definition bind_kwargs ::
  "(string \<times> pyval option) list \<Rightarrow> pydict \<Rightarrow> error + (string \<Rightarrow> pyval)" where
  "bind_kwargs params kwargs =
     (case filter (\<lambda>k. k \<notin> set (keys params)) (keys kwargs) of
        k # _ \<Rightarrow> Inl (TypeError k)
      | [] \<Rightarrow>
          (case filter (\<lambda>(p, dflt). dflt = None \<and> p \<notin> set (keys kwargs)) params of
             (p, _) # _ \<Rightarrow> Inl (TypeError p)
           | [] \<Rightarrow>
               Inr (\<lambda>p. case map_of kwargs p of
                           Some v \<Rightarrow> v
                         | None \<Rightarrow> (case map_of params p of Some (Some v) \<Rightarrow> v | _ \<Rightarrow> PNone))))"

section \<open>global_options.py\<close>

datatype pytype = Tint | Tbool | Tstr | Tfloat

definition global_options_parameters :: "(string \<times> pytype) list" where
  "global_options_parameters =
     [(''filter_thread_count'', Tint), (''display_stats'', Tbool), (''send_progress'', Tbool),
      (''show_timestamps'', Tbool), (''show_qp_histogram'', Tbool), (''show_benchmark'', Tbool),
      (''show_benchmark_verbose'', Tbool), (''exit_time_limit'', Tint),
      (''dump_input_stderr'', Tbool), (''dump_payload_stderr'', Tbool),
      (''filter_complex_thread'', Tint), (''dump_sdp_file'', Tstr),
      (''abort_on_flags'', Tstr), (''exit_on_error'', Tbool), (''overwrite_output'', Tbool),
      (''sudo'', Tbool)]"

text \<open>
  An instance of \<^verbatim>\<open>GlobalOptions\<close>: the two dictionaries set by \<^verbatim>\<open>__init__\<close> and the
  slot that \<^verbatim>\<open>functools.cached_property\<close> fills on the first read of
  \<^verbatim>\<open>ffmpeg_arguments\<close>.
\<close>

record GlobalOptions =
  go_options :: pydict
  go_doubly_named_flags :: "(string \<times> string) list"
  go_cached :: "string list option"

text \<open>The signature of \<^verbatim>\<open>GlobalOptions.__init__\<close>: parameter names and defaults.\<close>

definition GlobalOptions_signature :: "(string \<times> pyval option) list" where
  "GlobalOptions_signature =
     [(''filter_thread_count'', Some PNone), (''show_stats'', Some (PBool True)),
      (''send_progress'', Some (PBool False)), (''show_timestamps'', Some (PBool False)),
      (''show_qp_histogram'', Some (PBool False)), (''show_benchmark'', Some (PBool False)),
      (''show_benchmark_verbose'', Some (PBool False)), (''exit_time_limit'', Some PNone),
      (''dump_input_stderr'', Some (PBool False)), (''dump_payload_stderr'', Some (PBool False)),
      (''filter_complex_thread_count'', Some PNone), (''dump_sdp_file'', Some PNone),
      (''abort_on_flags'', Some PNone), (''exit_on_error'', Some (PBool False)),
      (''overwrite_output'', Some (PBool False)), (''sudo'', Some (PBool False))]"

text \<open>The body of \<^verbatim>\<open>GlobalOptions.__init__\<close>, on the bound arguments \<open>a\<close>.\<close>

definition GlobalOptions_init :: "(string \<Rightarrow> pyval) \<Rightarrow> GlobalOptions" where
  "GlobalOptions_init a =
     \<lparr> go_options =
         [(''filter_threads'', a ''filter_thread_count''), (''stats'', a ''show_stats''),
          (''progress'', a ''send_progress''), (''debug_ts'', a ''show_timestamps''),
          (''qphist'', a ''show_qp_histogram''), (''benchmark'', a ''show_benchmark''),
          (''benchmark_all'', a ''show_benchmark_verbose''),
          (''timelimit'', a ''exit_time_limit''),
          (''dump'', a ''dump_input_stderr''), (''hex'', a ''dump_payload_stderr''),
          (''filter_complex_threads'', a ''filter_complex_thread_count''),
          (''sdp_file'', a ''dump_sdp_file''), (''abort_on'', a ''abort_on_flags''),
          (''xerror'', a ''exit_on_error''), (''y'', a ''overwrite_output'')],
       go_doubly_named_flags = [(''stats'', ''nostats''), (''y'', ''n'')],
       go_cached = None \<rparr>"

text \<open>\<^verbatim>\<open>GlobalOptions(**kwargs)\<close>\<close>

definition GlobalOptions_new :: "pydict \<Rightarrow> error + GlobalOptions" where
  "GlobalOptions_new kwargs =
     (case bind_kwargs GlobalOptions_signature kwargs of
        Inl e \<Rightarrow> Inl e
      | Inr a \<Rightarrow> Inr (GlobalOptions_init a))"

text \<open>
  One turn of the loop of \<^verbatim>\<open>GlobalOptions.ffmpeg_arguments\<close>: the list built so far
  goes in, the list after the turn comes out.
\<close>

definition render_step ::
  "(64 word \<Rightarrow> string) \<Rightarrow> (string \<times> string) list \<Rightarrow> string \<times> pyval \<Rightarrow> string list \<Rightarrow> string list"
  where
  "render_step fs doubly item ffmpeg_arguments =
     (case item of (arg, val) \<Rightarrow>
        if val = PNone then ffmpeg_arguments
        else if isinstance_bool val then
          (if truthy val then ffmpeg_arguments @ [CHR ''-'' # arg]
           else (case map_of doubly arg of
                   Some neg \<Rightarrow> ffmpeg_arguments @ [CHR ''-'' # neg]
                 | None \<Rightarrow> ffmpeg_arguments))
        else (ffmpeg_arguments @ [CHR ''-'' # arg]) @ [py_str fs val])"

text \<open>The loop over \<^verbatim>\<open>self._options.items()\<close>.\<close>

fun render_loop ::
  "(64 word \<Rightarrow> string) \<Rightarrow> (string \<times> string) list \<Rightarrow> pydict \<Rightarrow> string list \<Rightarrow> string list"
  where
  "render_loop fs doubly [] ffmpeg_arguments = ffmpeg_arguments"
| "render_loop fs doubly (item # items) ffmpeg_arguments =
     render_loop fs doubly items (render_step fs doubly item ffmpeg_arguments)"

text \<open>The body of the property: start from the empty list and run the loop.\<close>

definition compute_ffmpeg_arguments :: "(64 word \<Rightarrow> string) \<Rightarrow> GlobalOptions \<Rightarrow> string list" where
  "compute_ffmpeg_arguments fs self =
     render_loop fs (go_doubly_named_flags self) (go_options self) []"

text \<open>
  Reading the cached property: the first read runs the body and stores the result in the
  instance, a later read returns what is stored.
\<close>

definition GlobalOptions_ffmpeg_arguments ::
  "(64 word \<Rightarrow> string) \<Rightarrow> GlobalOptions \<Rightarrow> string list \<times> GlobalOptions" where
  "GlobalOptions_ffmpeg_arguments fs self =
     (case go_cached self of
        Some r \<Rightarrow> (r, self)
      | None \<Rightarrow>
          (let r = compute_ffmpeg_arguments fs self
           in (r, self\<lparr>go_cached := Some r\<rparr>)))"

text \<open>
  The tokens the specification gives for one option (section 4.1, rules 1 to 3), written
  from its words, to compare the loop with.
\<close>

definition spec_option_tokens ::
  "(64 word \<Rightarrow> string) \<Rightarrow> (string \<times> string) list \<Rightarrow> string \<Rightarrow> pyval \<Rightarrow> string list" where
  "spec_option_tokens fs doubly flag_name v =
     (case v of
        PNone \<Rightarrow> []
      | PBool True \<Rightarrow> [''-'' @ flag_name]
      | PBool False \<Rightarrow>
          (case map_of doubly flag_name of
             Some negative_flag_name \<Rightarrow> [''-'' @ negative_flag_name]
           | None \<Rightarrow> [])
      | _ \<Rightarrow> [''-'' @ flag_name, py_str fs v])"

section \<open>output_streams.py\<close>

definition output_stream_parameters :: "(string \<times> pytype) list" where
  "output_stream_parameters =
     [(''filename'', Tstr), (''fmt'', Tstr), (''video_codec'', Tstr), (''audio_codec'', Tstr),
      (''file_size'', Tint), (''duration'', Tstr), (''end_position'', Tstr),
      (''seek_position'', Tstr), (''timestamp'', Tstr), (''target'', Tstr),
      (''preset'', Tstr), (''framerate'', Tfloat), (''video_size'', Tstr),
      (''aspect_ratio'', Tstr), (''pixel_format'', Tstr), (''sample_rate'', Tint),
      (''channels'', Tint), (''sample_format'', Tstr), (''fourcc'', Tstr),
      (''minimum_rate'', Tstr), (''maximum_rate'', Tstr), (''buffer_size'', Tstr)]"

subsection \<open>The store\<close>

text \<open>
  \<^verbatim>\<open>OutputStream.ffmpeg_arguments\<close> builds a second dictionary from \<^verbatim>\<open>self._options\<close>
  and \<^verbatim>\<open>_process_mutually_exclusive\<close> deletes from the dictionary it is handed, in place.
  Which dictionary a deletion reaches is what some properties are about, so dictionaries
  live in a store and are named by their address: the store is a list, an address is an
  index into it, and a new dictionary is put at the end.  The records that \<^verbatim>\<open>logging\<close>
  receives are kept beside the store, each with its level and the values its message is
  formatted from.
\<close>

type_synonym addr = nat

datatype log_record =
    Info_discarding "string list"
  | Error_unable_to_find string pydict

record world =
  heap :: "pydict list"
  logged :: "log_record list"

definition new_dict :: "pydict \<Rightarrow> world \<Rightarrow> addr \<times> world" where
  "new_dict d w = (length (heap w), w\<lparr>heap := heap w @ [d]\<rparr>)"

text \<open>\<^verbatim>\<open>del d[k]\<close>: removes the entry, raises \<^verbatim>\<open>KeyError\<close> when there is none.\<close>

definition delitem :: "addr \<Rightarrow> string \<Rightarrow> world \<Rightarrow> world \<times> error option" where
  "delitem a k w =
     (if k \<in> set (keys (heap w ! a))
      then (w\<lparr>heap := (heap w)[a := filter (\<lambda>(k', v). k' \<noteq> k) (heap w ! a)]\<rparr>, None)
      else (w, Some (KeyError k)))"

subsection \<open>OutputStream\<close>

record OutputStream =
  os_options :: addr
  os_mutually_exclusive :: "string list list"
  os_cached :: "addr option"

definition OutputStream_signature :: "(string \<times> pyval option) list" where
  "OutputStream_signature =
     [(''filename'', None), (''fmt'', Some PNone), (''video_codec'', Some PNone),
      (''audio_codec'', Some PNone), (''file_size'', Some PNone), (''duration'', Some PNone),
      (''end_position'', Some PNone), (''seek_position'', Some PNone),
      (''timestamp'', Some PNone), (''target'', Some PNone), (''preset'', Some PNone),
      (''framerate'', Some PNone), (''video_size'', Some PNone),
      (''aspect_ratio'', Some PNone), (''pixel_format'', Some PNone),
      (''sample_rate'', Some PNone), (''channels'', Some PNone),
      (''sample_format'', Some PNone), (''fourcc'', Some PNone),
      (''minimum_rate'', Some PNone), (''maximum_rate'', Some PNone),
      (''buffer_size'', Some PNone)]"

text \<open>\<^verbatim>\<open>_define_mutually_exclusive(self, *args)\<close>\<close>

definition define_mutually_exclusive :: "OutputStream \<Rightarrow> string list \<Rightarrow> OutputStream" where
  "define_mutually_exclusive self args =
     (if length args \<le> 1 then self
      else self\<lparr>os_mutually_exclusive := os_mutually_exclusive self @ [args]\<rparr>)"

text \<open>The dictionary literal of \<^verbatim>\<open>OutputStream.__init__\<close>, on the bound arguments.\<close>

definition OutputStream_options :: "(string \<Rightarrow> pyval) \<Rightarrow> pydict" where
  "OutputStream_options a =
     [(''filename'', a ''filename''), (''format'', a ''fmt''), (''fs'', a ''file_size''),
      (''vcodec'', a ''video_codec''), (''acodec'', a ''audio_codec''), (''t'', a ''duration''),
      (''to'', a ''end_position''), (''ss'', a ''seek_position''),
      (''timestamp'', a ''timestamp''), (''target'', a ''target''), (''pre'', a ''preset''),
      (''framerate'', a ''framerate''), (''s'', a ''video_size''),
      (''aspect'', a ''aspect_ratio''), (''pix_fmt'', a ''pixel_format''),
      (''ar'', a ''sample_rate''), (''ac'', a ''channels''),
      (''sample_fmt'', a ''sample_format''), (''atag'', a ''fourcc''),
      (''minrate'', a ''minimum_rate''), (''maxrate'', a ''maximum_rate''),
      (''bufsize'', a ''buffer_size'')]"

definition OutputStream_init :: "(string \<Rightarrow> pyval) \<Rightarrow> world \<Rightarrow> world \<times> OutputStream" where
  "OutputStream_init a w =
     (case new_dict (OutputStream_options a) w of
        (r, w') \<Rightarrow>
          (w', define_mutually_exclusive
                 \<lparr> os_options = r, os_mutually_exclusive = [], os_cached = None \<rparr>
                 [''t'', ''to'']))"

text \<open>\<^verbatim>\<open>OutputStream(**kwargs)\<close>\<close>

definition OutputStream_new :: "pydict \<Rightarrow> world \<Rightarrow> world \<times> (error + OutputStream)" where
  "OutputStream_new kwargs w =
     (case bind_kwargs OutputStream_signature kwargs of
        Inl e \<Rightarrow> (w, Inl e)
      | Inr a \<Rightarrow> (case OutputStream_init a w of (w', self) \<Rightarrow> (w', Inr self)))"

text \<open>The inner loop \<^verbatim>\<open>for arg in to_remove: del filtered_options[arg]\<close>.\<close>

fun delete_each :: "addr \<Rightarrow> string list \<Rightarrow> world \<Rightarrow> world \<times> error option" where
  "delete_each filtered_options [] w = (w, None)"
| "delete_each filtered_options (arg # to_remove) w =
     (case delitem filtered_options arg w of
        (w', Some e) \<Rightarrow> (w', Some e)
      | (w', None) \<Rightarrow> delete_each filtered_options to_remove w')"

text \<open>One turn of the outer loop of \<^verbatim>\<open>_process_mutually_exclusive\<close>, for one group.\<close>

definition process_group :: "string list \<Rightarrow> addr \<Rightarrow> world \<Rightarrow> world \<times> error option" where
  "process_group mutually_exclusive filtered_options w =
     (let found = filter (\<lambda>arg. arg \<in> set (keys (heap w ! filtered_options))) mutually_exclusive
      in if length found \<le> 1 then (w, None)
         else (let to_remove = tl found
               in delete_each filtered_options to_remove
                    (w\<lparr>logged := logged w @ [Info_discarding to_remove]\<rparr>)))"

text \<open>\<^verbatim>\<open>_process_mutually_exclusive(self, filtered_options)\<close>, over the groups of \<open>self\<close>.\<close>

fun process_groups :: "string list list \<Rightarrow> addr \<Rightarrow> world \<Rightarrow> world \<times> error option" where
  "process_groups [] filtered_options w = (w, None)"
| "process_groups (mutually_exclusive # rest) filtered_options w =
     (case process_group mutually_exclusive filtered_options w of
        (w', Some e) \<Rightarrow> (w', Some e)
      | (w', None) \<Rightarrow> process_groups rest filtered_options w')"

definition process_mutually_exclusive ::
  "OutputStream \<Rightarrow> addr \<Rightarrow> world \<Rightarrow> world \<times> error option" where
  "process_mutually_exclusive self filtered_options w =
     process_groups (os_mutually_exclusive self) filtered_options w"

text \<open>
  Reading the cached property \<^verbatim>\<open>OutputStream.ffmpeg_arguments\<close>.  The first read makes the
  filtered dictionary, runs the resolver on it and stores its address in the instance; an
  exception leaves the slot empty.  The result is the address of the dictionary returned.
\<close>

definition OutputStream_ffmpeg_arguments ::
  "OutputStream \<Rightarrow> world \<Rightarrow> world \<times> OutputStream \<times> (error + addr)" where
  "OutputStream_ffmpeg_arguments self w =
     (case os_cached self of
        Some r \<Rightarrow> (w, self, Inr r)
      | None \<Rightarrow>
          (case new_dict (filter (\<lambda>(arg, value). value \<noteq> PNone) (heap w ! os_options self)) w of
             (filtered_options, w1) \<Rightarrow>
               (case process_mutually_exclusive self filtered_options w1 of
                  (w2, Some e) \<Rightarrow> (w2, self, Inl e)
                | (w2, None) \<Rightarrow>
                    (w2, self\<lparr>os_cached := Some filtered_options\<rparr>, Inr filtered_options))))"

subsection \<open>The factory\<close>

text \<open>
  \<^verbatim>\<open>generate_output_stream(name, *args, **kwargs)\<close>.  The registry is filled by the
  subclass hook and by \<^verbatim>\<open>streams.stream\<close>, and \<^verbatim>\<open>ffmpeg.output\<close> belongs to the
  ffmpeg-python package; both are parameters here.  A registry entry is a class, called
  with the keyword arguments to make an instance; \<^verbatim>\<open>ffmpeg.output\<close> returns a stream
  node or raises.  The function returns \<^verbatim>\<open>None\<close> (\<open>Inr None\<close>), a node
  (\<open>Inr (Some node)\<close>) or raises (\<open>Inl\<close>).
\<close>

type_synonym stream_class = "pydict \<Rightarrow> world \<Rightarrow> world \<times> (error + OutputStream)"

definition generate_output_stream ::
  "('args \<Rightarrow> pydict \<Rightarrow> error + 'node) \<Rightarrow> (string \<rightharpoonup> stream_class) \<Rightarrow>
   string \<Rightarrow> 'args \<Rightarrow> pydict \<Rightarrow> world \<Rightarrow> world \<times> (error + 'node option)" where
  "generate_output_stream ffmpeg_output registry name args kwargs w =
     (case registry name of
        None \<Rightarrow> (w\<lparr>logged := logged w @ [Error_unable_to_find name kwargs]\<rparr>, Inr None)
      | Some stream \<Rightarrow>
          (case stream kwargs w of
             (w1, Inl e) \<Rightarrow> (w1, Inl e)
           | (w1, Inr self) \<Rightarrow>
               (case OutputStream_ffmpeg_arguments self w1 of
                  (w2, self', Inl e) \<Rightarrow> (w2, Inl e)
                | (w2, self', Inr r) \<Rightarrow>
                    (case ffmpeg_output args (heap w2 ! r) of
                       Inl e \<Rightarrow> (w2, Inl e)
                     | Inr node \<Rightarrow> (w2, Inr (Some node))))))"

subsection \<open>The resolver on a dictionary value\<close>

text \<open>
  What the resolver does to the one dictionary it is handed, without the store: the
  dictionary after, the records logged, and the exception if any.  These functions are
  not in the source; the lemmas below show that the functions on the store compute them,
  and the proofs go through them.
\<close>

fun dict_delete_each :: "string list \<Rightarrow> pydict \<Rightarrow> pydict \<times> error option" where
  "dict_delete_each [] d = (d, None)"
| "dict_delete_each (arg # to_remove) d =
     (if arg \<in> set (keys d)
      then dict_delete_each to_remove (filter (\<lambda>(k', v). k' \<noteq> arg) d)
      else (d, Some (KeyError arg)))"

definition dict_process_group ::
  "string list \<Rightarrow> pydict \<Rightarrow> pydict \<times> log_record list \<times> error option" where
  "dict_process_group mutually_exclusive d =
     (let found = filter (\<lambda>arg. arg \<in> set (keys d)) mutually_exclusive
      in if length found \<le> 1 then (d, [], None)
         else (case dict_delete_each (tl found) d of
                 (d', e) \<Rightarrow> (d', [Info_discarding (tl found)], e)))"

fun dict_process_groups ::
  "string list list \<Rightarrow> pydict \<Rightarrow> pydict \<times> log_record list \<times> error option" where
  "dict_process_groups [] d = (d, [], None)"
| "dict_process_groups (mutually_exclusive # rest) d =
     (case dict_process_group mutually_exclusive d of
        (d', l, Some e) \<Rightarrow> (d', l, Some e)
      | (d', l, None) \<Rightarrow>
          (case dict_process_groups rest d' of (d'', l', e) \<Rightarrow> (d'', l @ l', e)))"

text \<open>The store with the dictionary at \<open>a\<close> replaced and records added to the log.\<close>

definition put :: "addr \<Rightarrow> pydict \<Rightarrow> log_record list \<Rightarrow> world \<Rightarrow> world" where
  "put a d l w = w\<lparr>heap := (heap w)[a := d], logged := logged w @ l\<rparr>"

section \<open>The argument renderer\<close>

lemma render_step_spec:
  "render_step fs doubly (arg, val) acc = acc @ spec_option_tokens fs doubly arg val"
  by (cases val) (auto simp: render_step_def spec_option_tokens_def split: option.splits)

lemma render_loop_spec:
  "render_loop fs doubly items acc =
     acc @ concat (map (\<lambda>(flag_name, v). spec_option_tokens fs doubly flag_name v) items)"
  by (induction items arbitrary: acc) (auto simp: render_step_spec)

lemma render_loop_acc:
  "render_loop fs doubly items acc = acc @ render_loop fs doubly items []"
  by (simp add: render_loop_spec)

lemma render_loop_app:
  "render_loop fs doubly (xs @ ys) acc = render_loop fs doubly ys (render_loop fs doubly xs acc)"
  by (induction xs arbitrary: acc) auto

lemma render_loop_concat:
  "render_loop fs doubly items [] = concat (map (\<lambda>item. render_step fs doubly item []) items)"
proof -
  have "(\<lambda>item. render_step fs doubly item []) =
          (\<lambda>(flag_name, v). spec_option_tokens fs doubly flag_name v)"
    by (auto simp: fun_eq_iff render_step_spec)
  then show ?thesis by (simp add: render_loop_spec)
qed

lemma read_uncached:
  "go_cached self = None \<Longrightarrow>
   GlobalOptions_ffmpeg_arguments fs self =
     (compute_ffmpeg_arguments fs self,
      self\<lparr>go_cached := Some (compute_ffmpeg_arguments fs self)\<rparr>)"
  by (simp add: GlobalOptions_ffmpeg_arguments_def Let_def)

text \<open>
  C1.  On the first read of \<^verbatim>\<open>ffmpeg_arguments\<close> the token list is the concatenation,
  over the options of the table, of what the rules give for each option: nothing for
  \<^verbatim>\<open>None\<close>; the one token \<open>-flag\<close> for \<^verbatim>\<open>True\<close>; for \<^verbatim>\<open>False\<close> the one token
  \<open>-negative_flag\<close> when the flag has a second name and nothing otherwise; and the two
  tokens \<open>-flag\<close>, \<^verbatim>\<open>str(value)\<close> for every other value.
\<close>

theorem C1_option_tokens:
  assumes "go_cached self = None"
  shows "fst (GlobalOptions_ffmpeg_arguments fs self) =
           concat (map (\<lambda>(flag_name, v).
                          spec_option_tokens fs (go_doubly_named_flags self) flag_name v)
                       (go_options self))"
  using assms
  by (simp add: read_uncached compute_ffmpeg_arguments_def render_loop_spec)

theorem C1_option_tokens_witness:
  "go_cached (GlobalOptions_init ((\<lambda>p. PNone)(''show_stats'' := PBool False,
       ''send_progress'' := PBool True, ''show_timestamps'' := PBool False,
       ''exit_time_limit'' := PInt 120, ''dump_sdp_file'' := PStr ''a.sdp''))) = None \<and>
   fst (GlobalOptions_ffmpeg_arguments (\<lambda>x. [])
     (GlobalOptions_init ((\<lambda>p. PNone)(''show_stats'' := PBool False,
       ''send_progress'' := PBool True, ''show_timestamps'' := PBool False,
       ''exit_time_limit'' := PInt 120, ''dump_sdp_file'' := PStr ''a.sdp'')))) =
     [''-nostats'', ''-progress'', ''-timelimit'', ''120'', ''-sdp_file'', ''a.sdp'']"
  using C1_option_tokens [of "GlobalOptions_init ((\<lambda>p. PNone)(''show_stats'' := PBool False,
       ''send_progress'' := PBool True, ''show_timestamps'' := PBool False,
       ''exit_time_limit'' := PInt 120, ''dump_sdp_file'' := PStr ''a.sdp''))" "\<lambda>x. []"]
  by (simp add: GlobalOptions_init_def spec_option_tokens_def str_int_def digit_char_def)

text \<open>
  C6.  The token list is the concatenation, in the order of the table, of the tokens the
  loop appends for each option on its own.  So wherever the table is split at an option,
  the tokens of the options declared before it come first, then its own, then those of
  the options declared after it: nothing is moved and nothing is merged.
\<close>

theorem C6_declaration_order:
  assumes "go_cached self = None"
  shows "fst (GlobalOptions_ffmpeg_arguments fs self) =
           concat (map (\<lambda>item. render_step fs (go_doubly_named_flags self) item [])
                       (go_options self)) \<and>
         (\<forall>before item after. go_options self = before @ item # after \<longrightarrow>
            fst (GlobalOptions_ffmpeg_arguments fs self) =
              render_loop fs (go_doubly_named_flags self) before [] @
              render_step fs (go_doubly_named_flags self) item [] @
              render_loop fs (go_doubly_named_flags self) after [])"
proof -
  let ?d = "go_doubly_named_flags self"
  have r: "fst (GlobalOptions_ffmpeg_arguments fs self) = render_loop fs ?d (go_options self) []"
    using assms by (simp add: read_uncached compute_ffmpeg_arguments_def)
  have "render_loop fs ?d (before @ item # after) [] =
          render_loop fs ?d before [] @ render_step fs ?d item [] @ render_loop fs ?d after []"
    for before item after
    by (simp add: render_loop_concat)
  with r show ?thesis by (simp add: render_loop_concat)
qed

theorem C6_declaration_order_witness:
  "fst (GlobalOptions_ffmpeg_arguments (\<lambda>x. [])
     (GlobalOptions_init ((\<lambda>p. PNone)(''filter_thread_count'' := PInt 4,
        ''show_stats'' := PBool True, ''overwrite_output'' := PBool False)))) =
     [''-filter_threads'', ''4''] @ [''-stats''] @ [''-n'']"
proof -
  let ?a = "(\<lambda>p. PNone)(''filter_thread_count'' := PInt 4,
        ''show_stats'' := PBool True, ''overwrite_output'' := PBool False)"
  have c: "go_cached (GlobalOptions_init ?a) = None"
    by (simp add: GlobalOptions_init_def)
  have s: "go_options (GlobalOptions_init ?a) =
             [(''filter_threads'', PInt 4)] @ (''stats'', PBool True) #
             [(''progress'', PNone), (''debug_ts'', PNone), (''qphist'', PNone),
              (''benchmark'', PNone), (''benchmark_all'', PNone), (''timelimit'', PNone),
              (''dump'', PNone), (''hex'', PNone), (''filter_complex_threads'', PNone),
              (''sdp_file'', PNone), (''abort_on'', PNone), (''xerror'', PNone),
              (''y'', PBool False)]"
    by (simp add: GlobalOptions_init_def)
  from C6_declaration_order [OF c, of "\<lambda>x. []"] s
  have "fst (GlobalOptions_ffmpeg_arguments (\<lambda>x. []) (GlobalOptions_init ?a)) =
          render_loop (\<lambda>x. []) (go_doubly_named_flags (GlobalOptions_init ?a))
            [(''filter_threads'', PInt 4)] [] @
          render_step (\<lambda>x. []) (go_doubly_named_flags (GlobalOptions_init ?a))
            (''stats'', PBool True) [] @
          render_loop (\<lambda>x. []) (go_doubly_named_flags (GlobalOptions_init ?a))
            [(''progress'', PNone), (''debug_ts'', PNone), (''qphist'', PNone),
              (''benchmark'', PNone), (''benchmark_all'', PNone), (''timelimit'', PNone),
              (''dump'', PNone), (''hex'', PNone), (''filter_complex_threads'', PNone),
              (''sdp_file'', PNone), (''abort_on'', PNone), (''xerror'', PNone),
              (''y'', PBool False)] []"
    by blast
  then show ?thesis
    by (simp add: GlobalOptions_init_def render_step_def str_int_def digit_char_def)
qed

text \<open>
  C10.  \<^verbatim>\<open>sudo\<close> is a parameter of the constructor and is not read by its body: two
  calls that differ in \<^verbatim>\<open>sudo\<close> only build the same instance, and so the same tokens,
  whether the arguments are taken as bound or passed as keywords.
\<close>

theorem C10_sudo_not_rendered:
  "GlobalOptions_init (a(''sudo'' := s1)) = GlobalOptions_init (a(''sudo'' := s2)) \<and>
   fst (GlobalOptions_ffmpeg_arguments fs (GlobalOptions_init (a(''sudo'' := s1)))) =
   fst (GlobalOptions_ffmpeg_arguments fs (GlobalOptions_init (a(''sudo'' := s2)))) \<and>
   map_sum id (\<lambda>self. fst (GlobalOptions_ffmpeg_arguments fs self))
       (GlobalOptions_new ((''sudo'', s1) # kwargs)) =
   map_sum id (\<lambda>self. fst (GlobalOptions_ffmpeg_arguments fs self))
       (GlobalOptions_new ((''sudo'', s2) # kwargs))"
proof -
  have i: "GlobalOptions_init (a(''sudo'' := s1)) = GlobalOptions_init (a(''sudo'' := s2))" for a
    by (simp add: GlobalOptions_init_def)
  have b: "bind_kwargs GlobalOptions_signature ((''sudo'', s) # kwargs) =
             (case bind_kwargs GlobalOptions_signature ((''sudo'', PNone) # kwargs) of
                Inl e \<Rightarrow> Inl e | Inr a \<Rightarrow> Inr (a(''sudo'' := s)))" for s
    by (auto simp: bind_kwargs_def keys_def fun_eq_iff split: list.splits prod.splits)
  have n: "GlobalOptions_new ((''sudo'', s1) # kwargs) = GlobalOptions_new ((''sudo'', s2) # kwargs)"
    unfolding GlobalOptions_new_def b [of s1] b [of s2]
    by (simp add: i split: sum.splits)
  show ?thesis using i n by simp
qed

text \<open>
  C4.  The schema of \<^verbatim>\<open>global_options_parameters\<close> has two names that the constructor
  does not take, \<^verbatim>\<open>display_stats\<close> and \<^verbatim>\<open>filter_complex_thread\<close>; a call with either
  raises \<^verbatim>\<open>TypeError\<close>.
\<close>

theorem C4_schema_names_rejected:
  "GlobalOptions_new [(''display_stats'', PBool True)] = Inl (TypeError ''display_stats'') \<and>
   GlobalOptions_new [(''filter_complex_thread'', PInt 2)] =
     Inl (TypeError ''filter_complex_thread'') \<and>
   filter (\<lambda>k. k \<notin> set (keys GlobalOptions_signature)) (keys global_options_parameters) =
     [''display_stats'', ''filter_complex_thread'']"
  by (simp add: GlobalOptions_new_def bind_kwargs_def keys_def GlobalOptions_signature_def
      global_options_parameters_def)

section \<open>The resolver and the store\<close>

lemma put_same [simp]: "put a (heap w ! a) [] w = w"
  by (simp add: put_def)

lemma heap_put [simp]: "heap (put a d l w) = (heap w)[a := d]"
  by (simp add: put_def)

lemma logged_put [simp]: "logged (put a d l w) = logged w @ l"
  by (simp add: put_def)

lemma put_put [simp]: "put a d' l' (put a d l w) = put a d' (l @ l') w"
  by (simp add: put_def)

lemma delete_each_dict:
  "a < length (heap w) \<Longrightarrow>
   delete_each a ks w =
     (put a (fst (dict_delete_each ks (heap w ! a))) [] w, snd (dict_delete_each ks (heap w ! a)))"
proof (induction ks arbitrary: w)
  case Nil
  then show ?case by simp
next
  case (Cons k ks)
  show ?case
  proof (cases "k \<in> set (keys (heap w ! a))")
    case True
    let ?w' = "put a (filter (\<lambda>(k', v). k' \<noteq> k) (heap w ! a)) [] w"
    have d: "delitem a k w = (?w', None)"
      using True by (simp add: delitem_def put_def)
    have "a < length (heap ?w')" using Cons.prems by simp
    from Cons.IH [OF this] d True Cons.prems show ?thesis by simp
  next
    case False
    then show ?thesis by (simp add: delitem_def)
  qed
qed

lemma process_group_dict:
  assumes "a < length (heap w)"
  shows "process_group g a w =
     (case dict_process_group g (heap w ! a) of (d', l, e) \<Rightarrow> (put a d' l w, e))"
proof -
  let ?found = "filter (\<lambda>arg. arg \<in> set (keys (heap w ! a))) g"
  let ?w = "w\<lparr>logged := logged w @ [Info_discarding (tl ?found)]\<rparr>"
  have "a < length (heap ?w)" and "heap ?w ! a = heap w ! a" using assms by simp_all
  from delete_each_dict [OF this(1), of "tl ?found"] this(2)
  have "delete_each a (tl ?found) ?w =
          (put a (fst (dict_delete_each (tl ?found) (heap w ! a))) [Info_discarding (tl ?found)] w,
           snd (dict_delete_each (tl ?found) (heap w ! a)))"
    by (simp add: put_def)
  then show ?thesis
    by (simp add: process_group_def dict_process_group_def Let_def split: prod.splits)
qed

lemma process_groups_dict:
  "a < length (heap w) \<Longrightarrow>
   process_groups gs a w =
     (case dict_process_groups gs (heap w ! a) of (d', l, e) \<Rightarrow> (put a d' l w, e))"
proof (induction gs arbitrary: w)
  case Nil
  then show ?case by simp
next
  case (Cons g gs)
  obtain d' l e where g: "dict_process_group g (heap w ! a) = (d', l, e)"
    by (cases "dict_process_group g (heap w ! a)") auto
  show ?case
  proof (cases e)
    case None
    have "a < length (heap (put a d' l w))" using Cons.prems by simp
    from Cons.IH [OF this] Cons.prems g None show ?thesis
      by (simp add: process_group_dict split: prod.splits)
  next
    case (Some x)
    with Cons.prems g show ?thesis by (simp add: process_group_dict)
  qed
qed

lemma dict_delete_each_distinct:
  "distinct ks \<Longrightarrow> set ks \<subseteq> set (keys d) \<Longrightarrow>
   dict_delete_each ks d = (filter (\<lambda>(k, v). k \<notin> set ks) d, None)"
proof (induction ks arbitrary: d)
  case Nil
  then show ?case by simp
next
  case (Cons k ks)
  let ?d = "filter (\<lambda>(k', v). k' \<noteq> k) d"
  have "set ks \<subseteq> set (keys ?d)"
  proof
    fix x assume x: "x \<in> set ks"
    with Cons.prems have "x \<noteq> k" and "x \<in> fst ` set d" by (auto simp: keys_def)
    then obtain v where "(x, v) \<in> set d" by auto
    with \<open>x \<noteq> k\<close> have "(x, v) \<in> set ?d" by simp
    then show "x \<in> set (keys ?d)" by (force simp: keys_def)
  qed
  with Cons.IH [of ?d] Cons.prems have "dict_delete_each ks ?d = (filter (\<lambda>(k, v). k \<notin> set ks) ?d, None)"
    by simp
  moreover have "filter (\<lambda>(k, v). k \<notin> set ks) ?d = filter (\<lambda>(k', v). k' \<notin> set (k # ks)) d"
    by (auto intro: filter_cong)
  ultimately show ?case using Cons.prems by simp
qed

lemma dict_process_groups_empty: "dict_process_groups gs [] = ([], [], None)"
  by (induction gs) (simp_all add: dict_process_group_def keys_def)

lemma read_first:
  assumes "os_cached self = None"
  shows "OutputStream_ffmpeg_arguments self w =
     (let d = filter (\<lambda>(arg, value). value \<noteq> PNone) (heap w ! os_options self);
          r = length (heap w)
      in case dict_process_groups (os_mutually_exclusive self) d of
           (d', l, e) \<Rightarrow>
             (w\<lparr>heap := heap w @ [d'], logged := logged w @ l\<rparr>,
              (case e of Some x \<Rightarrow> self | None \<Rightarrow> self\<lparr>os_cached := Some r\<rparr>),
              (case e of Some x \<Rightarrow> Inl x | None \<Rightarrow> Inr r)))"
proof -
  let ?d = "filter (\<lambda>(arg, value). value \<noteq> PNone) (heap w ! os_options self)"
  let ?w1 = "w\<lparr>heap := heap w @ [?d]\<rparr>"
  have l: "length (heap w) < length (heap ?w1)" by simp
  have n: "heap ?w1 ! length (heap w) = ?d" by simp
  have p: "put (length (heap w)) d' l ?w1 = w\<lparr>heap := heap w @ [d'], logged := logged w @ l\<rparr>"
    for d' l by (simp add: put_def)
  show ?thesis
    using assms
    unfolding OutputStream_ffmpeg_arguments_def new_dict_def process_mutually_exclusive_def
    by (simp add: process_groups_dict [OF l] n p Let_def split: prod.splits option.splits)
qed

lemma read_cached:
  "os_cached self = Some r \<Longrightarrow> OutputStream_ffmpeg_arguments self w = (w, self, Inr r)"
  by (simp add: OutputStream_ffmpeg_arguments_def)

text \<open>
  C9.  Reading \<^verbatim>\<open>ffmpeg_arguments\<close> leaves the dictionary \<^verbatim>\<open>self._options\<close> as it was,
  whether the read is served from the cache, completes, or raises: the resolver deletes
  from the dictionary made by the comprehension, which lives at another address.
\<close>

theorem C9_options_untouched:
  assumes "os_options self < length (heap w)"
  shows "case OutputStream_ffmpeg_arguments self w of
           (w', self', r) \<Rightarrow>
             os_options self' = os_options self \<and>
             heap w' ! os_options self' = heap w ! os_options self"
proof (cases "os_cached self")
  case None
  with assms show ?thesis
    by (simp add: read_first Let_def nth_append split: prod.splits option.splits)
next
  case (Some r)
  then show ?thesis by (simp add: read_cached)
qed

theorem C9_options_untouched_witness:
  "(case OutputStream_ffmpeg_arguments
           \<lparr>os_options = 0, os_mutually_exclusive = [[''t'', ''to'']], os_cached = None\<rparr>
           \<lparr>heap = [[(''filename'', PNone), (''t'', PStr ''10''), (''to'', PStr ''20'')]],
            logged = []\<rparr> of
      (w', self', r) \<Rightarrow>
        heap w' ! os_options self' =
          [(''filename'', PNone), (''t'', PStr ''10''), (''to'', PStr ''20'')] \<and>
        r = Inr 1 \<and> heap w' ! 1 = [(''t'', PStr ''10'')])"
proof -
  let ?s = "\<lparr>os_options = 0, os_mutually_exclusive = [[''t'', ''to'']], os_cached = None\<rparr>"
  let ?w = "\<lparr>heap = [[(''filename'', PNone), (''t'', PStr ''10''), (''to'', PStr ''20'')]],
            logged = []\<rparr>"
  have h: "os_options ?s < length (heap ?w)" by simp
  show ?thesis
    using C9_options_untouched [OF h]
    by (simp add: read_first dict_process_group_def keys_def Let_def)
qed

text \<open>
  C5.  Reading \<^verbatim>\<open>ffmpeg_arguments\<close> twice gives the same result both times.  For
  \<^verbatim>\<open>GlobalOptions\<close> the second read returns the list of the first and changes
  nothing.  For \<^verbatim>\<open>OutputStream\<close> the second read returns the same dictionary (the same
  address, with the same contents) and changes nothing, or, when the first read raised,
  raises the same exception.
\<close>

theorem C5_idempotent:
  "(case GlobalOptions_ffmpeg_arguments fs g of
      (r1, g1) \<Rightarrow>
        (case GlobalOptions_ffmpeg_arguments fs g1 of (r2, g2) \<Rightarrow> r2 = r1 \<and> g2 = g1)) \<and>
   (os_options self < length (heap w) \<longrightarrow>
      (case OutputStream_ffmpeg_arguments self w of
         (w1, self1, r1) \<Rightarrow>
           (case OutputStream_ffmpeg_arguments self1 w1 of
              (w2, self2, r2) \<Rightarrow>
                r2 = r1 \<and>
                (\<forall>a. r1 = Inr a \<longrightarrow> w2 = w1 \<and> self2 = self1 \<and> heap w2 ! a = heap w1 ! a))))"
proof -
  have G: "case GlobalOptions_ffmpeg_arguments fs g of
      (r1, g1) \<Rightarrow>
        (case GlobalOptions_ffmpeg_arguments fs g1 of (r2, g2) \<Rightarrow> r2 = r1 \<and> g2 = g1)"
    by (cases "go_cached g") (simp_all add: GlobalOptions_ffmpeg_arguments_def Let_def)
  have S: "case OutputStream_ffmpeg_arguments self w of
         (w1, self1, r1) \<Rightarrow>
           (case OutputStream_ffmpeg_arguments self1 w1 of
              (w2, self2, r2) \<Rightarrow>
                r2 = r1 \<and>
                (\<forall>a. r1 = Inr a \<longrightarrow> w2 = w1 \<and> self2 = self1 \<and> heap w2 ! a = heap w1 ! a))"
    if v: "os_options self < length (heap w)"
  proof (cases "os_cached self")
    case (Some r)
    then show ?thesis by (simp add: read_cached)
  next
    case None
    let ?d = "filter (\<lambda>(arg, value). value \<noteq> PNone) (heap w ! os_options self)"
    obtain d' l e where p: "dict_process_groups (os_mutually_exclusive self) ?d = (d', l, e)"
      by (cases "dict_process_groups (os_mutually_exclusive self) ?d") auto
    show ?thesis
    proof (cases e)
      case N: None
      with None p show ?thesis by (simp add: read_first read_cached Let_def)
    next
      case (Some x)
      let ?w1 = "w\<lparr>heap := heap w @ [d'], logged := logged w @ l\<rparr>"
      have 1: "OutputStream_ffmpeg_arguments self w = (?w1, self, Inl x)"
        using None p Some by (simp add: read_first Let_def)
      have "heap ?w1 ! os_options self = heap w ! os_options self"
        using v by (simp add: nth_append)
      then have 2: "snd (snd (OutputStream_ffmpeg_arguments self ?w1)) = Inl x"
        using None p Some by (simp add: read_first Let_def)
      from 1 2 show ?thesis by (auto split: prod.splits)
    qed
  qed
  from G S show ?thesis by blast
qed

theorem C5_idempotent_witness:
  "(case OutputStream_ffmpeg_arguments
           \<lparr>os_options = 0, os_mutually_exclusive = [[''t'', ''to'']], os_cached = None\<rparr>
           \<lparr>heap = [[(''filename'', PNone), (''t'', PStr ''10''), (''to'', PStr ''20'')]],
            logged = []\<rparr> of
      (w1, self1, r1) \<Rightarrow>
        (case OutputStream_ffmpeg_arguments self1 w1 of
           (w2, self2, r2) \<Rightarrow>
             r1 = Inr 1 \<and> r2 = Inr 1 \<and> heap w2 ! 1 = [(''t'', PStr ''10'')] \<and> w2 = w1))"
proof -
  let ?s = "\<lparr>os_options = 0, os_mutually_exclusive = [[''t'', ''to'']], os_cached = None\<rparr>"
  let ?w = "\<lparr>heap = [[(''filename'', PNone), (''t'', PStr ''10''), (''to'', PStr ''20'')]],
            logged = []\<rparr>"
  have h: "os_options ?s < length (heap ?w)" by simp
  have 1: "OutputStream_ffmpeg_arguments ?s ?w =
             (\<lparr>heap = [[(''filename'', PNone), (''t'', PStr ''10''), (''to'', PStr ''20'')],
                       [(''t'', PStr ''10'')]],
               logged = [Info_discarding [''to'']]\<rparr>,
              ?s\<lparr>os_cached := Some 1\<rparr>, Inr 1)"
    by (simp add: read_first dict_process_group_def keys_def Let_def)
  from C5_idempotent [where self = ?s and w = ?w] h
  show ?thesis
    unfolding 1 by (auto split: prod.splits)
qed

lemma map_of_filter_key:
  "(\<And>v. P (k, v)) \<Longrightarrow> map_of (filter P d) k = map_of d k"
  by (induction d) auto

lemma found_tl:
  assumes "distinct g" and "(k, v) \<in> set d"
  shows "k \<in> set (tl (filter (\<lambda>arg. arg \<in> set (keys d)) g)) \<longleftrightarrow>
         k \<in> set g \<and> k \<noteq> hd (filter (\<lambda>arg. arg \<in> set (keys d)) g)"
proof -
  let ?found = "filter (\<lambda>arg. arg \<in> set (keys d)) g"
  have kd: "k \<in> set (keys d)" using assms(2) by (force simp: keys_def)
  have df: "distinct ?found" using assms(1) by simp
  show ?thesis
  proof (cases ?found)
    case Nil
    then have "k \<notin> set g" using kd by (auto simp: filter_empty_conv)
    with Nil show ?thesis by simp
  next
    case (Cons x xs)
    have "k \<in> set ?found \<longleftrightarrow> k \<in> set g" using kd by simp
    with Cons df show ?thesis by auto
  qed
qed

text \<open>
  C2, for a group whose names are pairwise distinct.  With \<open>found\<close> the members of the
  group that are keys of the dictionary, in the order of the group: when at most one is
  found the resolver changes nothing; when more are found it removes exactly the entries
  of the members other than the first found, logs what it discards, raises nothing, and
  the first found keeps its value.
\<close>

theorem C2_resolver_distinct_group:
  assumes "distinct g" and "a < length (heap w)"
  shows "let d = heap w ! a;
             found = filter (\<lambda>arg. arg \<in> set (keys d)) g;
             d' = filter (\<lambda>(k, v). k \<notin> set g \<or> k = hd found) d
         in (length found \<le> 1 \<longrightarrow> process_group g a w = (w, None)) \<and>
            (1 < length found \<longrightarrow>
               process_group g a w =
                 (w\<lparr>heap := (heap w)[a := d'],
                    logged := logged w @ [Info_discarding (tl found)]\<rparr>, None) \<and>
               map_of d' (hd found) = map_of d (hd found))"
proof -
  let ?d = "heap w ! a"
  let ?found = "filter (\<lambda>arg. arg \<in> set (keys ?d)) g"
  let ?d' = "filter (\<lambda>(k, v). k \<notin> set g \<or> k = hd ?found) ?d"
  have small: "process_group g a w = (w, None)" if "length ?found \<le> 1"
    using that by (simp add: process_group_def Let_def)
  have big: "process_group g a w =
               (w\<lparr>heap := (heap w)[a := ?d'],
                  logged := logged w @ [Info_discarding (tl ?found)]\<rparr>, None)"
    if "1 < length ?found"
  proof -
    have "distinct (tl ?found)" using assms(1) by (simp add: distinct_tl)
    moreover have "set (tl ?found) \<subseteq> set (keys ?d)"
    proof
      fix x assume "x \<in> set (tl ?found)"
      then have "x \<in> set ?found" by (rule list.set_sel(2) [rotated]) (use that in auto)
      then show "x \<in> set (keys ?d)" by simp
    qed
    ultimately have "dict_delete_each (tl ?found) ?d =
                       (filter (\<lambda>(k, v). k \<notin> set (tl ?found)) ?d, None)"
      by (rule dict_delete_each_distinct)
    moreover have "filter (\<lambda>(k, v). k \<notin> set (tl ?found)) ?d = ?d'"
      by (rule filter_cong) (auto simp: found_tl [OF assms(1)])
    ultimately show ?thesis
      using that assms(2)
      by (simp add: process_group_dict dict_process_group_def Let_def put_def)
  qed
  have "map_of ?d' (hd ?found) = map_of ?d (hd ?found)"
    by (rule map_of_filter_key) simp
  with small big show ?thesis by (simp add: Let_def)
qed

theorem C2_resolver_distinct_group_witness:
  "process_group [''t'', ''to''] 0
     \<lparr>heap = [[(''filename'', PStr ''out.mp4''), (''t'', PStr ''10''), (''to'', PStr ''20'')]],
      logged = []\<rparr> =
     (\<lparr>heap = [[(''filename'', PStr ''out.mp4''), (''t'', PStr ''10'')]],
       logged = [Info_discarding [''to'']]\<rparr>, None) \<and>
   process_group [''t'', ''to''] 0
     \<lparr>heap = [[(''filename'', PStr ''out.mp4''), (''to'', PStr ''20'')]], logged = []\<rparr> =
     (\<lparr>heap = [[(''filename'', PStr ''out.mp4''), (''to'', PStr ''20'')]], logged = []\<rparr>, None)"
proof -
  have d: "distinct [''t'', ''to'']" by simp
  let ?w1 = "\<lparr>heap = [[(''filename'', PStr ''out.mp4''), (''t'', PStr ''10''), (''to'', PStr ''20'')]],
      logged = []\<rparr>"
  let ?w2 = "\<lparr>heap = [[(''filename'', PStr ''out.mp4''), (''to'', PStr ''20'')]], logged = []\<rparr>"
  have a1: "0 < length (heap ?w1)" and a2: "0 < length (heap ?w2)" by simp_all
  show ?thesis
    using C2_resolver_distinct_group [OF d a1] C2_resolver_distinct_group [OF d a2]
    by (simp add: keys_def Let_def)
qed

text \<open>
  C2 as stated, for every group, fails when a name is repeated in the group.  For the
  group \<^verbatim>\<open>('t', 't')\<close> and the dictionary \<^verbatim>\<open>{'t': '10'}\<close> the one member present is
  deleted; for \<^verbatim>\<open>('t', 'to', 'to')\<close> with both present the second deletion of
  \<^verbatim>\<open>'to'\<close> raises \<^verbatim>\<open>KeyError\<close>.
\<close>

theorem C2_repeated_name_counterexample:
  "process_group [''t'', ''t''] 0 \<lparr>heap = [[(''t'', PStr ''10'')]], logged = []\<rparr> =
     (\<lparr>heap = [[]], logged = [Info_discarding [''t'']]\<rparr>, None) \<and>
   heap (fst (process_group [''t'', ''t''] 0 \<lparr>heap = [[(''t'', PStr ''10'')]], logged = []\<rparr>)) ! 0
     \<noteq> [(''t'', PStr ''10'')] \<and>
   snd (process_group [''t'', ''to'', ''to''] 0
          \<lparr>heap = [[(''t'', PStr ''10''), (''to'', PStr ''20'')]], logged = []\<rparr>) =
     Some (KeyError ''to'')"
  by (simp add: process_group_def delitem_def keys_def Let_def)

text \<open>
  C8.  For a name that is not in the registry \<^verbatim>\<open>generate_output_stream\<close> logs one error
  record and returns \<^verbatim>\<open>None\<close>, with nothing raised and nothing else changed.  For a
  name that is in the registry it never returns \<^verbatim>\<open>None\<close>: it returns the node made by
  \<^verbatim>\<open>ffmpeg.output\<close> or raises.
\<close>

theorem C8_unknown_stream_name:
  "(registry name = None \<longrightarrow>
      generate_output_stream ffmpeg_output registry name args kwargs w =
        (w\<lparr>logged := logged w @ [Error_unable_to_find name kwargs]\<rparr>, Inr None)) \<and>
   (registry name \<noteq> None \<longrightarrow>
      snd (generate_output_stream ffmpeg_output registry name args kwargs w) \<noteq> Inr None)"
  by (auto simp: generate_output_stream_def split: option.splits prod.splits sum.splits)

theorem C8_unknown_stream_name_witness:
  "generate_output_stream (\<lambda>args d. Inr (args, d)) [''other-stream'' \<mapsto> OutputStream_new]
     ''webcam'' [''in''] [(''filename'', PStr ''out.mp4'')] \<lparr>heap = [], logged = []\<rparr> =
     (\<lparr>heap = [],
       logged = [Error_unable_to_find ''webcam'' [(''filename'', PStr ''out.mp4'')]]\<rparr>,
      Inr None) \<and>
   snd (generate_output_stream (\<lambda>args d. Inr (args, d)) [''other-stream'' \<mapsto> OutputStream_new]
     ''other-stream'' [''in''] [(''filename'', PStr ''out.mp4'')] \<lparr>heap = [], logged = []\<rparr>) \<noteq>
     Inr None"
proof -
  let ?reg = "[''other-stream'' \<mapsto> OutputStream_new]"
  have u: "?reg ''webcam'' = None" and k: "?reg ''other-stream'' \<noteq> None" by simp_all
  show ?thesis
    using C8_unknown_stream_name [of ?reg "''webcam''" "\<lambda>args d. Inr (args, d)" "[''in'']"
            "[(''filename'', PStr ''out.mp4'')]" "\<lparr>heap = [], logged = []\<rparr>"]
          C8_unknown_stream_name [of ?reg "''other-stream''" "\<lambda>args d. Inr (args, d)" "[''in'']"
            "[(''filename'', PStr ''out.mp4'')]" "\<lparr>heap = [], logged = []\<rparr>"]
    by simp
qed

end
